theory Spec2Isabelle
  imports Complex_Main
begin

section \<open>GaNDLF regression and cross-entropy losses (GANDLF/losses/regression.py)\<close>

text \<open>
  The module is numeric glue over the tensor library: every function reads a configuration
  dictionary, slices tensors of shape \<open>[batch, class, spatial...]\<close> per class, calls a loss
  of the tensor library and aggregates the results. The embedding keeps the control flow,
  the dictionary lookups, the order of evaluation and every \<^verbatim>\<open>raise\<close> of the source.

  Tensor entries are real numbers: rounding and overflow of the machine floats are not
  modelled. The two places where the source turns finite entries into NaN or an infinity
  (the mean of an empty tensor, a tensor divided by a class count of zero) produce the
  entry \<open>NonFin\<close>, which every later operation of the module propagates.
\<close>

subsection \<open>Python errors and results\<close>

datatype key = Name string | Index nat

datatype error =
    KeyError key
  | IndexError
  | TypeError
  | ValueError string
  | RuntimeError
  | ZeroDivisionError
  | UnboundLocalError string

text \<open>Sequencing of two statements: the second one runs only when the first one did not raise.\<close>

definition bindE :: "error + 'a \<Rightarrow> ('a \<Rightarrow> error + 'b) \<Rightarrow> error + 'b" where
  "bindE m f = (case m of Inl e \<Rightarrow> Inl e | Inr x \<Rightarrow> f x)"

text \<open>\<^verbatim>\<open>for i in range(...)\<close> over an accumulator; a raise in the body leaves the loop.\<close>

fun for_range :: "('a \<Rightarrow> nat \<Rightarrow> error + 'a) \<Rightarrow> nat list \<Rightarrow> 'a \<Rightarrow> error + 'a" where
  "for_range body [] acc = Inr acc"
| "for_range body (i # is) acc =
     (case body acc i of Inl e \<Rightarrow> Inl e | Inr acc' \<Rightarrow> for_range body is acc')"

text \<open>\<^verbatim>\<open>range(0, n)\<close> for a Python integer \<open>n\<close>: empty when \<open>n \<le> 0\<close>.\<close>

definition range0 :: "int \<Rightarrow> nat list" where
  "range0 n = [0..<nat n]"

text \<open>\<^verbatim>\<open>str(n)\<close> of a non-negative integer, as the f-strings of the error messages print it.\<close>

definition digit :: "nat \<Rightarrow> char" where
  "digit d = (''0123456789'' ! d)"

fun str_nat :: "nat \<Rightarrow> string" where
  "str_nat n = (if n < 10 then [digit n] else str_nat (n div 10) @ [digit (n mod 10)])"

subsection \<open>Tensors and loss values\<close>

text \<open>A tensor is its shape and its entries in row-major order.\<close>

datatype tensor = Tensor (shape: "nat list") (data: "real list")

definition wf_tensor :: "tensor \<Rightarrow> bool" where
  "wf_tensor t = (length (data t) = prod_list (shape t))"

text \<open>An entry of a computed tensor: a real number, or NaN or an infinity.\<close>

datatype fl = Fin real | NonFin

text \<open>
  What a loss returns and what the accumulators hold: a Python number (the initial
  \<^verbatim>\<open>0\<close>), a 0-dimensional tensor (reductions \<^verbatim>\<open>"mean"\<close> and \<^verbatim>\<open>"sum"\<close>) or a
  1-dimensional tensor (reduction \<^verbatim>\<open>"none"\<close> on flattened arguments).
\<close>

datatype val = PyNum real | Scalar fl | Vec "fl list"

fun fadd :: "fl \<Rightarrow> fl \<Rightarrow> fl" where
  "fadd (Fin a) (Fin b) = Fin (a + b)"
| "fadd _ _ = NonFin"

fun fscale :: "fl \<Rightarrow> real \<Rightarrow> fl" where
  "fscale (Fin a) w = Fin (a * w)"
| "fscale NonFin w = NonFin"

fun fdiv :: "fl \<Rightarrow> int \<Rightarrow> fl" where
  "fdiv (Fin a) n = (if n = 0 then NonFin else Fin (a / real_of_int n))"
| "fdiv NonFin n = NonFin"

text \<open>
  \<^verbatim>\<open>acc += x\<close>. On a Python number it is \<^verbatim>\<open>acc = acc + x\<close>, a new tensor of the shape
  of \<open>x\<close>. On a tensor it is the in-place \<^verbatim>\<open>acc.add_(x)\<close>: \<open>x\<close> is broadcast to the shape
  of \<open>acc\<close>, and the tensor library raises when the broadcast shape is not that shape.
\<close>

fun iadd :: "val \<Rightarrow> val \<Rightarrow> error + val" where
  "iadd (PyNum a) (PyNum b) = Inr (PyNum (a + b))"
| "iadd (PyNum a) (Scalar y) = Inr (Scalar (fadd (Fin a) y))"
| "iadd (PyNum a) (Vec ys) = Inr (Vec (map (fadd (Fin a)) ys))"
| "iadd (Scalar x) (PyNum b) = Inr (Scalar (fadd x (Fin b)))"
| "iadd (Scalar x) (Scalar y) = Inr (Scalar (fadd x y))"
| "iadd (Scalar x) (Vec ys) = Inl RuntimeError"
| "iadd (Vec xs) (PyNum b) = Inr (Vec (map (\<lambda>x. fadd x (Fin b)) xs))"
| "iadd (Vec xs) (Scalar y) = Inr (Vec (map (\<lambda>x. fadd x y) xs))"
| "iadd (Vec xs) (Vec ys) =
     (if length ys = length xs then Inr (Vec (map2 fadd xs ys))
      else if length ys = 1 then Inr (Vec (map (\<lambda>x. fadd x (hd ys)) xs))
      else Inl RuntimeError)"

text \<open>\<^verbatim>\<open>x * w\<close> for a Python float \<open>w\<close>.\<close>

fun mul :: "val \<Rightarrow> real \<Rightarrow> val" where
  "mul (PyNum a) w = PyNum (a * w)"
| "mul (Scalar x) w = Scalar (fscale x w)"
| "mul (Vec xs) w = Vec (map (\<lambda>x. fscale x w) xs)"

text \<open>
  \<^verbatim>\<open>acc /= n\<close> for a Python integer \<open>n\<close>: Python's own division raises on zero, the
  tensor library's division returns infinities or NaN.
\<close>

fun truediv :: "val \<Rightarrow> int \<Rightarrow> error + val" where
  "truediv (PyNum a) n = (if n = 0 then Inl ZeroDivisionError else Inr (PyNum (a / real_of_int n)))"
| "truediv (Scalar x) n = Inr (Scalar (fdiv x n))"
| "truediv (Vec xs) n = Inr (Vec (map (\<lambda>x. fdiv x n) xs))"

text \<open>
  \<^verbatim>\<open>t[:, i, ...]\<close>: the entries of class channel \<open>i\<close>, for every batch index. It needs two
  dimensions and \<open>i\<close> within the second one.
\<close>

definition class_data :: "tensor \<Rightarrow> nat \<Rightarrow> real list" where
  "class_data t i =
     (case shape t of
        b # c # rest \<Rightarrow>
          concat (map (\<lambda>k. take (prod_list rest) (drop ((k * c + i) * prod_list rest) (data t))) [0..<b])
      | _ \<Rightarrow> [])"

definition select :: "tensor \<Rightarrow> nat \<Rightarrow> error + tensor" where
  "select t i =
     (case shape t of
        b # c # rest \<Rightarrow> if i < c then Inr (Tensor (b # rest) (class_data t i)) else Inl IndexError
      | _ \<Rightarrow> Inl IndexError)"

text \<open>\<^verbatim>\<open>t.shape[0]\<close> and \<^verbatim>\<open>t.shape[1]\<close>.\<close>

definition shape0 :: "tensor \<Rightarrow> error + nat" where
  "shape0 t = (case shape t of b # _ \<Rightarrow> Inr b | _ \<Rightarrow> Inl IndexError)"

definition shape1 :: "tensor \<Rightarrow> error + nat" where
  "shape1 t = (case shape t of _ # c # _ \<Rightarrow> Inr c | _ \<Rightarrow> Inl IndexError)"

subsection \<open>The elementwise losses of the tensor library\<close>

text \<open>
  \<^verbatim>\<open>L1Loss\<close> and \<^verbatim>\<open>MSELoss\<close> on two flattened tensors: the arguments are broadcast
  against each other (equal lengths, or one of them of length one), the elementwise loss is
  taken and reduced as the \<^verbatim>\<open>reduction\<close> string says.
\<close>

definition broadcast :: "real list \<Rightarrow> real list \<Rightarrow> error + (real list \<times> real list)" where
  "broadcast xs ys =
     (if length xs = length ys then Inr (xs, ys)
      else if length xs = 1 then Inr (replicate (length ys) (hd xs), ys)
      else if length ys = 1 then Inr (xs, replicate (length xs) (hd ys))
      else Inl RuntimeError)"

definition reduce :: "string \<Rightarrow> real list \<Rightarrow> error + val" where
  "reduce reduction ls =
     (if reduction = ''none'' then Inr (Vec (map Fin ls))
      else if reduction = ''mean'' then
        Inr (Scalar (if ls = [] then NonFin else Fin (sum_list ls / real (length ls))))
      else if reduction = ''sum'' then Inr (Scalar (Fin (sum_list ls)))
      else Inl (ValueError (reduction @ '' is not a valid value for reduction'')))"

definition L1Loss :: "string \<Rightarrow> real list \<Rightarrow> real list \<Rightarrow> error + val" where
  "L1Loss reduction xs ys =
     bindE (broadcast xs ys) (\<lambda>(a, b). reduce reduction (map2 (\<lambda>x y. \<bar>x - y\<bar>) a b))"

definition MSELoss :: "string \<Rightarrow> real list \<Rightarrow> real list \<Rightarrow> error + val" where
  "MSELoss reduction xs ys =
     bindE (broadcast xs ys) (\<lambda>(a, b). reduce reduction (map2 (\<lambda>x y. (x - y)\<^sup>2) a b))"

subsection \<open>L1 and MSE\<close>

text \<open>
  The label is cast to float and multiplied by the scaling factor, both arguments are
  flattened, and the loss of the tensor library is applied. The callers that pass no
  keyword arguments get \<^verbatim>\<open>reduction="mean"\<close> and \<^verbatim>\<open>scaling_factor=1\<close>.
\<close>

definition L1 :: "tensor \<Rightarrow> tensor \<Rightarrow> string \<Rightarrow> real \<Rightarrow> error + val" where
  "L1 output label reduction scaling_factor =
     L1Loss reduction (data output) (map (\<lambda>y. y * scaling_factor) (data label))"

definition MSE :: "tensor \<Rightarrow> tensor \<Rightarrow> string \<Rightarrow> real \<Rightarrow> error + val" where
  "MSE output label reduction scaling_factor =
     MSELoss reduction (data output) (map (\<lambda>y. y * scaling_factor) (data label))"

subsection \<open>The configuration dictionary\<close>

text \<open>
  \<^verbatim>\<open>params\<close> is a nested dictionary. A field that is \<open>None\<close> below is a key the
  dictionary does not have; reading it raises \<^verbatim>\<open>KeyError\<close>. \<^verbatim>\<open>params["weights"]\<close> can
  also be present and hold Python's \<^verbatim>\<open>None\<close>; when given, it maps class indices to
  weights and keeps the order of insertion. An entry of \<^verbatim>\<open>params["loss_function"]\<close> is a
  dictionary of settings or something else (\<^verbatim>\<open>isinstance(..., dict)\<close> tells them apart).
\<close>

datatype 'a entry = Missing | PyNone | Present 'a

datatype lf_entry = Settings "string \<rightharpoonup> string" | NotADict

record 'c model_params =
  class_list :: "'c list option"
  num_classes :: "int option"

record 'c params =
  weights :: "(int \<times> real) list entry"
  model :: "'c model_params option"
  loss_function :: "(string \<rightharpoonup> lf_entry) option"
  scaling_factor :: "real option"

definition getitem :: "string \<Rightarrow> 'a option \<Rightarrow> error + 'a" where
  "getitem k v = (case v of None \<Rightarrow> Inl (KeyError (Name k)) | Some x \<Rightarrow> Inr x)"

text \<open>\<^verbatim>\<open>params["model"]["num_classes"]\<close>\<close>

definition model_num_classes :: "'c params \<Rightarrow> error + int" where
  "model_num_classes p =
     bindE (getitem ''model'' (model p)) (\<lambda>m. getitem ''num_classes'' (num_classes m))"

text \<open>\<^verbatim>\<open>params["model"]["class_list"]\<close>\<close>

definition model_class_list :: "'c params \<Rightarrow> error + 'c list" where
  "model_class_list p =
     bindE (getitem ''model'' (model p)) (\<lambda>m. getitem ''class_list'' (class_list m))"

text \<open>\<^verbatim>\<open>params["loss_function"][name]["reduction"]\<close>\<close>

definition loss_reduction :: "'c params \<Rightarrow> string \<Rightarrow> error + string" where
  "loss_reduction p name =
     bindE (getitem ''loss_function'' (loss_function p)) (\<lambda>lf.
     bindE (getitem name (lf name)) (\<lambda>e.
       case e of
         Settings st \<Rightarrow> getitem ''reduction'' (st ''reduction'')
       | NotADict \<Rightarrow> Inl TypeError))"

text \<open>\<^verbatim>\<open>params["scaling_factor"]\<close>\<close>

definition get_scaling_factor :: "'c params \<Rightarrow> error + real" where
  "get_scaling_factor p = getitem ''scaling_factor'' (scaling_factor p)"

subsection \<open>L1\_loss and MSE\_loss\<close>

text \<open>
  The body of the loop of \<^verbatim>\<open>L1_loss\<close> when \<^verbatim>\<open>params\<close> is given. The arguments of the
  call are evaluated from left to right: both slices, then the reduction, read under the
  key \<^verbatim>\<open>"mse"\<close>, then the scaling factor.
\<close>

definition L1_loss_body :: "'c params \<Rightarrow> tensor \<Rightarrow> tensor \<Rightarrow> val \<Rightarrow> nat \<Rightarrow> error + val" where
  "L1_loss_body p inp target acc_mse_loss i =
     bindE (select inp i) (\<lambda>x.
     bindE (select target i) (\<lambda>y.
     bindE (loss_reduction p ''mse'') (\<lambda>reduction.
     bindE (get_scaling_factor p) (\<lambda>sf.
     bindE (L1 x y reduction sf) (iadd acc_mse_loss)))))"

text \<open>The body of the loop when \<^verbatim>\<open>params\<close> is \<^verbatim>\<open>None\<close>.\<close>

definition L1_loss_body_default :: "tensor \<Rightarrow> tensor \<Rightarrow> val \<Rightarrow> nat \<Rightarrow> error + val" where
  "L1_loss_body_default inp target acc_mse_loss i =
     bindE (select inp i) (\<lambda>x.
     bindE (select target i) (\<lambda>y.
     bindE (L1 x y ''mean'' 1) (iadd acc_mse_loss)))"

definition L1_loss :: "tensor \<Rightarrow> tensor \<Rightarrow> 'c params option \<Rightarrow> error + val" where
  "L1_loss inp target params =
     bindE (shape0 inp) (\<lambda>b.
     bindE
       (if b = 1 then
          (case params of
             Some p \<Rightarrow>
               bindE (loss_reduction p ''l1'') (\<lambda>reduction.
               bindE (get_scaling_factor p) (\<lambda>sf.
               bindE (L1 inp target reduction sf) (iadd (PyNum 0))))
           | None \<Rightarrow> bindE (L1 inp target ''mean'' 1) (iadd (PyNum 0)))
        else
          (case params of
             Some p \<Rightarrow>
               bindE (model_num_classes p) (\<lambda>n.
                 for_range (L1_loss_body p inp target) (range0 n) (PyNum 0))
           | None \<Rightarrow>
               bindE (shape1 inp) (\<lambda>c.
                 for_range (L1_loss_body_default inp target) (range0 (int c)) (PyNum 0))))
       (\<lambda>acc_mse_loss.
          case params of
            Some p \<Rightarrow> bindE (model_num_classes p) (truediv acc_mse_loss)
          | None \<Rightarrow> bindE (shape1 inp) (\<lambda>c. truediv acc_mse_loss (int c))))"

text \<open>
  \<^verbatim>\<open>MSE_loss\<close> first settles its reduction: \<^verbatim>\<open>"mean"\<close>, unless \<^verbatim>\<open>params\<close> is given,
  \<^verbatim>\<open>"mse"\<close> is a key of \<^verbatim>\<open>params["loss_function"]\<close> and its entry is a dictionary.
\<close>

definition MSE_reduction :: "'c params option \<Rightarrow> error + string" where
  "MSE_reduction params =
     (case params of
        None \<Rightarrow> Inr ''mean''
      | Some p \<Rightarrow>
          bindE (getitem ''loss_function'' (loss_function p)) (\<lambda>lf.
            case lf ''mse'' of
              None \<Rightarrow> Inr ''mean''
            | Some NotADict \<Rightarrow> Inr ''mean''
            | Some (Settings st) \<Rightarrow> getitem ''reduction'' (st ''reduction'')))"

definition MSE_loss_body ::
    "'c params \<Rightarrow> string \<Rightarrow> tensor \<Rightarrow> tensor \<Rightarrow> val \<Rightarrow> nat \<Rightarrow> error + val" where
  "MSE_loss_body p reduction inp target acc_mse_loss i =
     bindE (select inp i) (\<lambda>x.
     bindE (select target i) (\<lambda>y.
     bindE (get_scaling_factor p) (\<lambda>sf.
     bindE (MSE x y reduction sf) (iadd acc_mse_loss))))"

definition MSE_loss_body_default :: "tensor \<Rightarrow> tensor \<Rightarrow> val \<Rightarrow> nat \<Rightarrow> error + val" where
  "MSE_loss_body_default inp target acc_mse_loss i =
     bindE (select inp i) (\<lambda>x.
     bindE (select target i) (\<lambda>y.
     bindE (MSE x y ''mean'' 1) (iadd acc_mse_loss)))"

definition MSE_loss :: "tensor \<Rightarrow> tensor \<Rightarrow> 'c params option \<Rightarrow> error + val" where
  "MSE_loss inp target params =
     bindE (MSE_reduction params) (\<lambda>reduction.
     bindE (shape0 inp) (\<lambda>b.
     bindE
       (if b = 1 then
          (case params of
             Some p \<Rightarrow>
               bindE (get_scaling_factor p) (\<lambda>sf.
               bindE (MSE inp target reduction sf) (iadd (PyNum 0)))
           | None \<Rightarrow> bindE (MSE inp target ''mean'' 1) (iadd (PyNum 0)))
        else
          (case params of
             Some p \<Rightarrow>
               bindE (model_num_classes p) (\<lambda>n.
                 for_range (MSE_loss_body p reduction inp target) (range0 n) (PyNum 0))
           | None \<Rightarrow>
               bindE (shape1 inp) (\<lambda>c.
                 for_range (MSE_loss_body_default inp target) (range0 (int c)) (PyNum 0))))
       (\<lambda>acc_mse_loss.
          case params of
            Some p \<Rightarrow> bindE (model_num_classes p) (truediv acc_mse_loss)
          | None \<Rightarrow> bindE (shape1 inp) (\<lambda>c. truediv acc_mse_loss (int c)))))"

subsection \<open>The cross-entropy family\<close>

text \<open>
  \<^verbatim>\<open>target.byte()\<close> casts an entry to an unsigned 8-bit integer: the fraction is dropped
  and an integer is reduced modulo 256. For an entry outside \<open>[0, 256)\<close> the tensor library
  leaves the cast of a float to the platform; whichever of the 256 values it gives, the
  comparison of the source with the entry itself is false there, as it is in this model.
\<close>

definition byte :: "real \<Rightarrow> real" where
  "byte x = real_of_int ((if x < 0 then \<lceil>x\<rceil> else \<lfloor>x\<rfloor>) mod 256)"

text \<open>\<^verbatim>\<open>torch.all(target.byte() == target)\<close>\<close>

definition byte_check :: "tensor \<Rightarrow> bool" where
  "byte_check target = list_all (\<lambda>x. byte x = x) (data target)"

text \<open>
  The losses \<^verbatim>\<open>BCEWithLogitsLoss\<close>, \<^verbatim>\<open>BCELoss\<close> and \<^verbatim>\<open>CrossEntropyLoss\<close> belong to
  the tensor library. The functions below take them as arguments: the first ones on two
  flattened tensors, the last one on the weight vector (if any), the output and the target.
\<close>

definition CE_Logits :: "(real list \<Rightarrow> real list \<Rightarrow> error + val) \<Rightarrow> tensor \<Rightarrow> tensor \<Rightarrow> error + val" where
  "CE_Logits BCEWithLogitsLoss out target =
     (if \<not> byte_check target then Inl (ValueError ''Target tensor must be binary (0 or 1)'')
      else BCEWithLogitsLoss (data out) (data target))"

definition CE :: "(real list \<Rightarrow> real list \<Rightarrow> error + val) \<Rightarrow> tensor \<Rightarrow> tensor \<Rightarrow> error + val" where
  "CE BCELoss out target =
     (if \<not> byte_check target then Inl (ValueError ''Target tensor must be binary (0 or 1)'')
      else BCELoss (data out) (data target))"

text \<open>The message of the \<^verbatim>\<open>ValueError\<close> of \<^verbatim>\<open>CEL\<close>, an f-string over both counts.\<close>

definition mismatch_message :: "nat \<Rightarrow> nat \<Rightarrow> string" where
  "mismatch_message n_classes out_classes =
     ''Number of classes '' @ str_nat n_classes @
     '' does not match output shape '' @ str_nat out_classes"

text \<open>\<^verbatim>\<open>torch.squeeze(target, -1)\<close>, called when the last dimension has size one.\<close>

definition squeeze_last :: "tensor \<Rightarrow> tensor" where
  "squeeze_last t = Tensor (butlast (shape t)) (data t)"

definition CEL ::
    "(real list option \<Rightarrow> tensor \<Rightarrow> tensor \<Rightarrow> error + val) \<Rightarrow> tensor \<Rightarrow> tensor \<Rightarrow> 'c params \<Rightarrow> error + val" where
  "CEL CrossEntropyLoss out target p =
     (let target' = (if length (shape target) > 1 \<and> last (shape target) = 1
                     then squeeze_last target else target)
      in bindE
           (case weights p of
              Present w \<Rightarrow>
                (let n_classes = length w in
                 if shape out = [] then Inl IndexError
                 else if last (shape out) \<noteq> n_classes
                 then Inl (ValueError (mismatch_message n_classes (last (shape out))))
                 else Inr (Some (map snd w)))
            | _ \<Rightarrow> Inr None)
           (\<lambda>ws. CrossEntropyLoss ws out target'))"

text \<open>
  \<^verbatim>\<open>CCE_Generic\<close>. \<^verbatim>\<open>one_hot\<close> is imported from \<^verbatim>\<open>GANDLF.utils\<close> and \<^verbatim>\<open>CCE_Type\<close> is the
  caller's loss; both are arguments here. The name \<^verbatim>\<open>total_loss\<close> is assigned in the
  function, so it is a local variable, and it is read before any assignment.
\<close>

definition CCE_body ::
    "(tensor \<Rightarrow> tensor \<Rightarrow> error + val) \<Rightarrow> 'c params \<Rightarrow> tensor \<Rightarrow> tensor \<Rightarrow> val \<Rightarrow> nat \<Rightarrow> error + val" where
  "CCE_body CCE_Type p out target acc_ce_loss i =
     bindE (select out i) (\<lambda>x.
     bindE (select target i) (\<lambda>y.
     bindE (CCE_Type x y) (\<lambda>curr_ce_loss.
     bindE
       (case weights p of
          Missing \<Rightarrow> Inl (KeyError (Name ''weights''))
        | PyNone \<Rightarrow> Inr curr_ce_loss
        | Present w \<Rightarrow>
            (case map_of w (int i) of
               None \<Rightarrow> Inl (KeyError (Index i))
             | Some wi \<Rightarrow> Inr (mul curr_ce_loss wi)))
       (iadd acc_ce_loss))))"

definition CCE_Generic ::
    "(tensor \<Rightarrow> 'c list \<Rightarrow> error + tensor) \<Rightarrow> (tensor \<Rightarrow> tensor \<Rightarrow> error + val) \<Rightarrow>
     tensor \<Rightarrow> tensor \<Rightarrow> 'c params \<Rightarrow> error + val" where
  "CCE_Generic one_hot CCE_Type out target p =
     bindE (model_class_list p) (\<lambda>cl.
     bindE (one_hot target cl) (\<lambda>target'.
     bindE (model_class_list p) (\<lambda>cl'.
     bindE (for_range (CCE_body CCE_Type p out target') (range0 (int (length cl'))) (PyNum 0))
       (\<lambda>acc_ce_loss.
          case weights p of
            Missing \<Rightarrow> Inl (KeyError (Name ''weights''))
          | PyNone \<Rightarrow> Inl (UnboundLocalError ''total_loss'')
          | Present w \<Rightarrow> Inr acc_ce_loss))))"

subsection \<open>Notions used to state the properties\<close>

text \<open>
  The sum of a list of loss values as the loops of the module build it: start from the
  accumulator and add the values with \<^verbatim>\<open>+=\<close>, in order.
\<close>

fun add_all :: "val \<Rightarrow> val list \<Rightarrow> error + val" where
  "add_all acc [] = Inr acc"
| "add_all acc (v # vs) = bindE (iadd acc v) (\<lambda>a. add_all a vs)"

text \<open>A loss applied to the slices of class \<open>i\<close>: \<^verbatim>\<open>f(inp[:, i, ...], target[:, i, ...])\<close>.\<close>

definition on_class ::
    "(tensor \<Rightarrow> tensor \<Rightarrow> error + val) \<Rightarrow> tensor \<Rightarrow> tensor \<Rightarrow> nat \<Rightarrow> error + val" where
  "on_class f inp target i = bindE (select inp i) (\<lambda>x. bindE (select target i) (\<lambda>y. f x y))"

subsection \<open>A small configuration and a small batch\<close>

text \<open>
  Two classes with weights 0.5 and 2.0, reduction \<^verbatim>\<open>"mean"\<close> under the key \<^verbatim>\<open>"mse"\<close>
  only, scaling factor 1; two samples of two classes with one entry each.
\<close>

definition demo_params :: "int params" where
  "demo_params =
     \<lparr>weights = Present [(0, 1/2), (1, 2)],
      model = Some \<lparr>class_list = Some [0, 1], num_classes = Some 2\<rparr>,
      loss_function = Some [''mse'' \<mapsto> Settings [''reduction'' \<mapsto> ''mean'']],
      scaling_factor = Some 1\<rparr>"

definition demo_inp :: tensor where
  "demo_inp = Tensor [2, 2, 1] [1, 2, 3, 4]"

definition demo_target :: tensor where
  "demo_target = Tensor [2, 2, 1] [0, 0, 0, 0]"

text \<open>One sample of two classes with one entry each.\<close>

definition single_inp :: tensor where
  "single_inp = Tensor [1, 2, 1] [1, 3]"

definition single_target :: tensor where
  "single_target = Tensor [1, 2, 1] [0, 0]"

text \<open>A configuration that defines the reduction under the key \<^verbatim>\<open>"l1"\<close> only.\<close>

definition l1_only_params :: "int params" where
  "l1_only_params =
     \<lparr>weights = PyNone,
      model = Some \<lparr>class_list = Some [0, 1], num_classes = Some 2\<rparr>,
      loss_function = Some [''l1'' \<mapsto> Settings [''reduction'' \<mapsto> ''mean'']],
      scaling_factor = Some 1\<rparr>"

subsection \<open>One-hot labels for the examples\<close>

text \<open>
  Modelled from the spec: \<^verbatim>\<open>GANDLF.utils.one_hot\<close> is not among the sources. After the
  glossary, a categorical label becomes a vector with a single active position per class:
  a target of shape \<open>[batch, 1, spatial...]\<close> holding class identifiers becomes a tensor of
  shape \<open>[batch, len(class_list), spatial...]\<close> with entry 1 where the label is the class
  and 0 elsewhere.
\<close>

definition one_hot_labels :: "tensor \<Rightarrow> int list \<Rightarrow> error + tensor" where
  "one_hot_labels t cl =
     (case shape t of
        b # c # rest \<Rightarrow>
          if c = 1 then
            Inr (Tensor (b # length cl # rest)
              (concat (map (\<lambda>k. concat (map (\<lambda>cls.
                  map (\<lambda>x. if x = real_of_int cls then 1 else 0)
                    (take (prod_list rest) (drop (k * prod_list rest) (data t)))) cl)) [0..<b])))
          else Inl RuntimeError
      | _ \<Rightarrow> Inl RuntimeError)"

text \<open>Labels of the two samples of the small batch, and their one-hot encoding.\<close>

definition demo_labels :: tensor where
  "demo_labels = Tensor [2, 1, 1] [0, 1]"

definition demo_one_hot_target :: tensor where
  "demo_one_hot_target = Tensor [2, 2, 1] [1, 0, 0, 1]"

subsection \<open>The scenario of two samples, three classes and 4 x 4 images\<close>

text \<open>
  The MSE value of one class, as the specification names it: the mean of the squared
  differences over the entries of the class slices.
\<close>

definition mean_sq :: "real list \<Rightarrow> real list \<Rightarrow> real" where
  "mean_sq xs ys = sum_list (map2 (\<lambda>x y. (x - y)\<^sup>2) xs ys) / real (length xs)"

text \<open>The mean over a list of values.\<close>

definition mean_of :: "real list \<Rightarrow> real" where
  "mean_of ms = sum_list ms / real (length ms)"

text \<open>
  \<^verbatim>\<open>num_classes=3\<close>, reduction \<^verbatim>\<open>"mean"\<close>, \<^verbatim>\<open>scaling_factor=1\<close>; an input of ones and
  a target of zeros, both of shape \<open>[2, 3, 4, 4]\<close>.
\<close>

definition scenario_params :: "int params" where
  "scenario_params =
     \<lparr>weights = PyNone,
      model = Some \<lparr>class_list = Some [0, 1, 2], num_classes = Some 3\<rparr>,
      loss_function = Some [''mse'' \<mapsto> Settings [''reduction'' \<mapsto> ''mean'']],
      scaling_factor = Some 1\<rparr>"

definition scenario_inp :: tensor where
  "scenario_inp = Tensor [2, 3, 4, 4] (replicate 96 1)"

definition scenario_target :: tensor where
  "scenario_target = Tensor [2, 3, 4, 4] (replicate 96 0)"

section \<open>Properties\<close>

subsection \<open>Basic facts\<close>

lemma bindE_Inl [simp]: "bindE (Inl e) f = Inl e"
  by (simp add: bindE_def)

lemma bindE_Inr [simp]: "bindE (Inr x) f = f x"
  by (simp add: bindE_def)

lemma fadd_zero [simp]: "fadd (Fin 0) y = y"
  by (cases y) simp_all

lemma iadd_zero [simp]: "iadd (PyNum 0) v = Inr v"
  by (cases v) (simp_all add: map_idI)

text \<open>A loop whose body adds one value per index computes the sum of these values.\<close>

lemma for_range_add_all:
  "(\<And>i acc. i \<in> set js \<Longrightarrow> body acc i = iadd acc (v i)) \<Longrightarrow>
   for_range body js acc = add_all acc (map v js)"
proof (induction js arbitrary: acc)
  case Nil
  show ?case by simp
next
  case (Cons j js)
  have step: "body acc j = iadd acc (v j)" using Cons.prems by simp
  show ?case
  proof (cases "iadd acc (v j)")
    case (Inl e)
    then show ?thesis using step by simp
  next
    case (Inr a)
    have "for_range body js a = add_all a (map v js)"
      using Cons.IH Cons.prems by simp
    then show ?thesis using step Inr by simp
  qed
qed

lemma add_all_Scalar:
  "add_all (Scalar (Fin a)) (map (\<lambda>i. Scalar (Fin (l i))) js) =
     Inr (Scalar (Fin (a + sum_list (map l js))))"
  by (induction js arbitrary: a) (simp_all add: add.assoc)

lemma add_all_PyNum:
  "add_all (PyNum a) (map (\<lambda>i. Scalar (Fin (l i))) js) =
     Inr (if js = [] then PyNum a else Scalar (Fin (a + sum_list (map l js))))"
  by (cases js) (simp_all add: add_all_Scalar add.assoc)

lemma sum_list_upt: "sum_list (map l [0..<k]) = (\<Sum>i<k. (l i :: real))"
  by (simp add: interv_sum_list_conv_sum_set_nat atLeast0LessThan)

subsection \<open>The binary-target check of CE and CE\_Logits\<close>

text \<open>
  The check \<^verbatim>\<open>target.byte() == target\<close> holds for an entry exactly when the entry is one
  of the integers \<open>0, ..., 255\<close>: it tests that the entry is a byte, not that it is a bit.
\<close>

lemma byte_fixed_iff:
  "byte x = x \<longleftrightarrow> (\<exists>k::int. 0 \<le> k \<and> k < 256 \<and> x = real_of_int k)"
proof
  assume h: "byte x = x"
  let ?k = "(if x < 0 then \<lceil>x\<rceil> else \<lfloor>x\<rfloor>) mod 256"
  have "0 \<le> ?k \<and> ?k < 256" by simp
  moreover have "x = real_of_int ?k" using h by (simp add: byte_def)
  ultimately show "\<exists>k::int. 0 \<le> k \<and> k < 256 \<and> x = real_of_int k" by blast
next
  assume "\<exists>k::int. 0 \<le> k \<and> k < 256 \<and> x = real_of_int k"
  then obtain k :: int where "0 \<le> k" "k < 256" "x = real_of_int k" by blast
  then show "byte x = x" by (simp add: byte_def)
qed

lemma byte_check_iff:
  "byte_check t \<longleftrightarrow> (\<forall>x\<in>set (data t). \<exists>k::int. 0 \<le> k \<and> k < 256 \<and> x = real_of_int k)"
  by (simp add: byte_check_def list_all_iff byte_fixed_iff)

text \<open>Both functions raise exactly when the check fails, and then no loss is computed.\<close>

lemma CE_raises_iff_check_fails:
  "\<not> byte_check target \<Longrightarrow>
     CE BCELoss out target = Inl (ValueError ''Target tensor must be binary (0 or 1)'')
     \<and> CE_Logits BCEWithLogitsLoss out target =
         Inl (ValueError ''Target tensor must be binary (0 or 1)'')"
  "byte_check target \<Longrightarrow>
     CE BCELoss out target = BCELoss (data out) (data target)
     \<and> CE_Logits BCEWithLogitsLoss out target = BCEWithLogitsLoss (data out) (data target)"
  by (simp_all add: CE_def CE_Logits_def)

text \<open>
  C2. The claim: for every target with an entry other than 0 and 1, \<^verbatim>\<open>CE\<close> and
  \<^verbatim>\<open>CE_Logits\<close> raise before any loss is computed. On the target \<open>[2.0]\<close> the check of
  the source passes: neither function raises its \<^verbatim>\<open>ValueError\<close>, and each returns
  whatever the loss of the tensor library returns on that target.
\<close>

theorem CE_accepts_target_two:
  "CE BCELoss (Tensor [1] [1/2]) (Tensor [1] [2]) = BCELoss [1/2] [2]
   \<and> CE_Logits BCEWithLogitsLoss (Tensor [1] [1/2]) (Tensor [1] [2]) = BCEWithLogitsLoss [1/2] [2]"
  by (simp add: CE_def CE_Logits_def byte_check_def byte_def)

subsection \<open>The weight count check of CEL\<close>

text \<open>
  C7. When \<^verbatim>\<open>params["weights"]\<close> is given and its length differs from
  \<^verbatim>\<open>out.shape[-1]\<close>, \<^verbatim>\<open>CEL\<close> raises a \<^verbatim>\<open>ValueError\<close> whose message prints both counts,
  and the cross-entropy loss is not called. When the lengths agree the check raises
  nothing: the result is that of the cross-entropy loss on the weights in insertion order.
\<close>

theorem CEL_weight_count:
  assumes "weights p = Present w" and "shape out \<noteq> []"
  shows "(length w \<noteq> last (shape out) \<longrightarrow>
            CEL CrossEntropyLoss out target p =
              Inl (ValueError (''Number of classes '' @ str_nat (length w) @
                     '' does not match output shape '' @ str_nat (last (shape out)))))
       \<and> (length w = last (shape out) \<longrightarrow>
            CEL CrossEntropyLoss out target p =
              CrossEntropyLoss (Some (map snd w)) out
                (if length (shape target) > 1 \<and> last (shape target) = 1
                 then squeeze_last target else target))"
  using assms by (auto simp add: CEL_def Let_def mismatch_message_def)

theorem CEL_weight_count_witness:
  "CEL (\<lambda>ws out target. Inr (Scalar (Fin 0))) (Tensor [1, 2] [0, 0]) (Tensor [1] [0])
       (\<lparr>weights = Present [(0, 1/2), (1, 2), (2, 1)], model = None,
         loss_function = None, scaling_factor = None\<rparr> :: unit params)
     = Inl (ValueError ''Number of classes 3 does not match output shape 2'')
   \<and> CEL (\<lambda>ws out target. Inr (Scalar (Fin 0))) (Tensor [1, 2] [0, 0]) (Tensor [1] [0])
       (\<lparr>weights = Present [(0, 1/2), (1, 2)], model = None,
         loss_function = None, scaling_factor = None\<rparr> :: unit params)
     = Inr (Scalar (Fin 0))"
  using CEL_weight_count [of "\<lparr>weights = Present [(0, 1/2), (1, 2), (2, 1)], model = None,
         loss_function = None, scaling_factor = None\<rparr> :: unit params" "[(0, 1/2), (1, 2), (2, 1)]"
         "Tensor [1, 2] [0, 0]" "\<lambda>ws out target. Inr (Scalar (Fin 0))" "Tensor [1] [0]"]
    CEL_weight_count [of "\<lparr>weights = Present [(0, 1/2), (1, 2)], model = None,
         loss_function = None, scaling_factor = None\<rparr> :: unit params" "[(0, 1/2), (1, 2)]"
         "Tensor [1, 2] [0, 0]" "\<lambda>ws out target. Inr (Scalar (Fin 0))" "Tensor [1] [0]"]
  by (simp add: digit_def)

subsection \<open>The per-class loops of L1\_loss and MSE\_loss\<close>

text \<open>Once the configuration is read, a loop body adds the loss of one class.\<close>

lemma L1_loss_body_eq:
  "loss_reduction p ''mse'' = Inr r \<Longrightarrow> get_scaling_factor p = Inr sf \<Longrightarrow>
   L1_loss_body p inp target acc i = bindE (on_class (\<lambda>x y. L1 x y r sf) inp target i) (iadd acc)"
  by (simp add: L1_loss_body_def on_class_def bindE_def split: sum.splits)

lemma MSE_loss_body_eq:
  "get_scaling_factor p = Inr sf \<Longrightarrow>
   MSE_loss_body p r inp target acc i = bindE (on_class (\<lambda>x y. MSE x y r sf) inp target i) (iadd acc)"
  by (simp add: MSE_loss_body_def on_class_def bindE_def split: sum.splits)

lemma L1_loss_body_default_eq:
  "L1_loss_body_default inp target acc i =
     bindE (on_class (\<lambda>x y. L1 x y ''mean'' 1) inp target i) (iadd acc)"
  by (simp add: L1_loss_body_default_def on_class_def bindE_def split: sum.splits)

lemma MSE_loss_body_default_eq:
  "MSE_loss_body_default inp target acc i =
     bindE (on_class (\<lambda>x y. MSE x y ''mean'' 1) inp target i) (iadd acc)"
  by (simp add: MSE_loss_body_default_def on_class_def bindE_def split: sum.splits)

lemma L1_loss_multi:
  assumes "shape0 inp = Inr b" and "b \<noteq> 1"
    and "model_num_classes p = Inr n" and "get_scaling_factor p = Inr sf"
    and "loss_reduction p ''mse'' = Inr r"
    and "\<And>i. i < nat n \<Longrightarrow> on_class (\<lambda>x y. L1 x y r sf) inp target i = Inr (v i)"
  shows "L1_loss inp target (Some p) = bindE (add_all (PyNum 0) (map v [0..<nat n])) (\<lambda>s. truediv s n)"
proof -
  have "for_range (L1_loss_body p inp target) (range0 n) (PyNum 0) = add_all (PyNum 0) (map v (range0 n))"
    by (rule for_range_add_all) (simp add: L1_loss_body_eq [OF assms(5) assms(4)] assms(6) range0_def)
  then show ?thesis
    using assms(1-3) by (simp add: L1_loss_def range0_def)
qed

lemma MSE_loss_multi:
  assumes "shape0 inp = Inr b" and "b \<noteq> 1"
    and "model_num_classes p = Inr n" and "get_scaling_factor p = Inr sf"
    and "MSE_reduction (Some p) = Inr r"
    and "\<And>i. i < nat n \<Longrightarrow> on_class (\<lambda>x y. MSE x y r sf) inp target i = Inr (v i)"
  shows "MSE_loss inp target (Some p) = bindE (add_all (PyNum 0) (map v [0..<nat n])) (\<lambda>s. truediv s n)"
proof -
  have "for_range (MSE_loss_body p r inp target) (range0 n) (PyNum 0) = add_all (PyNum 0) (map v (range0 n))"
    by (rule for_range_add_all) (simp add: MSE_loss_body_eq [OF assms(4)] assms(6) range0_def)
  then show ?thesis
    using assms(1-3,5) by (simp add: MSE_loss_def range0_def)
qed

lemma scalar_mean:
  "0 < n \<Longrightarrow>
   bindE (add_all (PyNum 0) (map (\<lambda>i. Scalar (Fin (l i))) [0..<nat n])) (\<lambda>s. truediv s n) =
     Inr (Scalar (Fin ((\<Sum>i<nat n. l i) / real_of_int n)))"
  by (simp add: add_all_PyNum sum_list_upt)

text \<open>
  When the loop can read its configuration, \<^verbatim>\<open>L1_loss\<close> and \<^verbatim>\<open>MSE_loss\<close> return the
  sum, over the class indices \<open>0, ..., num_classes - 1\<close>, of the per-class loss on the
  slices \<^verbatim>\<open>inp[:, i, ...]\<close> and \<^verbatim>\<open>target[:, i, ...]\<close>, divided once by
  \<^verbatim>\<open>params["model"]["num_classes"]\<close>: for any loss values and, in closed form, for scalar
  ones. \<^verbatim>\<open>MSE_loss\<close> falls back to \<^verbatim>\<open>"mean"\<close> without the key \<^verbatim>\<open>"mse"\<close>; the loop of
  \<^verbatim>\<open>L1_loss\<close> needs that key.
\<close>

lemma loop_branch_sum:
  assumes "shape0 inp = Inr b" and "b \<noteq> 1"
    and "model_num_classes p = Inr n" and "get_scaling_factor p = Inr sf"
  shows "(loss_reduction p ''mse'' = Inr r \<and>
          (\<forall>i<nat n. on_class (\<lambda>x y. L1 x y r sf) inp target i = Inr (v i)) \<longrightarrow>
            L1_loss inp target (Some p) =
              bindE (add_all (PyNum 0) (map v [0..<nat n])) (\<lambda>s. truediv s n))
       \<and> (loss_reduction p ''mse'' = Inr r \<and> 0 < n \<and>
          (\<forall>i<nat n. on_class (\<lambda>x y. L1 x y r sf) inp target i = Inr (Scalar (Fin (l i)))) \<longrightarrow>
            L1_loss inp target (Some p) = Inr (Scalar (Fin ((\<Sum>i<nat n. l i) / real_of_int n))))
       \<and> (MSE_reduction (Some p) = Inr r' \<and>
          (\<forall>i<nat n. on_class (\<lambda>x y. MSE x y r' sf) inp target i = Inr (v' i)) \<longrightarrow>
            MSE_loss inp target (Some p) =
              bindE (add_all (PyNum 0) (map v' [0..<nat n])) (\<lambda>s. truediv s n))
       \<and> (MSE_reduction (Some p) = Inr r' \<and> 0 < n \<and>
          (\<forall>i<nat n. on_class (\<lambda>x y. MSE x y r' sf) inp target i = Inr (Scalar (Fin (l' i)))) \<longrightarrow>
            MSE_loss inp target (Some p) = Inr (Scalar (Fin ((\<Sum>i<nat n. l' i) / real_of_int n))))"
proof (intro conjI impI)
  assume h: "loss_reduction p ''mse'' = Inr r \<and>
    (\<forall>i<nat n. on_class (\<lambda>x y. L1 x y r sf) inp target i = Inr (v i))"
  show "L1_loss inp target (Some p) = bindE (add_all (PyNum 0) (map v [0..<nat n])) (\<lambda>s. truediv s n)"
    using L1_loss_multi [OF assms(1-4), of r target v] h by blast
next
  assume h: "loss_reduction p ''mse'' = Inr r \<and> 0 < n \<and>
    (\<forall>i<nat n. on_class (\<lambda>x y. L1 x y r sf) inp target i = Inr (Scalar (Fin (l i))))"
  have "L1_loss inp target (Some p) =
      bindE (add_all (PyNum 0) (map (\<lambda>i. Scalar (Fin (l i))) [0..<nat n])) (\<lambda>s. truediv s n)"
    using L1_loss_multi [OF assms(1-4), of r target "\<lambda>i. Scalar (Fin (l i))"] h by blast
  then show "L1_loss inp target (Some p) = Inr (Scalar (Fin ((\<Sum>i<nat n. l i) / real_of_int n)))"
    using h by (simp only: scalar_mean)
next
  assume h: "MSE_reduction (Some p) = Inr r' \<and>
    (\<forall>i<nat n. on_class (\<lambda>x y. MSE x y r' sf) inp target i = Inr (v' i))"
  show "MSE_loss inp target (Some p) = bindE (add_all (PyNum 0) (map v' [0..<nat n])) (\<lambda>s. truediv s n)"
    using MSE_loss_multi [OF assms(1-4), of r' target v'] h by blast
next
  assume h: "MSE_reduction (Some p) = Inr r' \<and> 0 < n \<and>
    (\<forall>i<nat n. on_class (\<lambda>x y. MSE x y r' sf) inp target i = Inr (Scalar (Fin (l' i))))"
  have "MSE_loss inp target (Some p) =
      bindE (add_all (PyNum 0) (map (\<lambda>i. Scalar (Fin (l' i))) [0..<nat n])) (\<lambda>s. truediv s n)"
    using MSE_loss_multi [OF assms(1-4), of r' target "\<lambda>i. Scalar (Fin (l' i))"] h by blast
  then show "MSE_loss inp target (Some p) = Inr (Scalar (Fin ((\<Sum>i<nat n. l' i) / real_of_int n)))"
    using h by (simp only: scalar_mean)
qed


text \<open>The small batch: the slices of both classes and what the configuration holds.\<close>

lemma demo_class_data:
  "class_data demo_inp 0 = [1, 3]" "class_data demo_inp (Suc 0) = [2, 4]"
  "class_data demo_target 0 = [0, 0]" "class_data demo_target (Suc 0) = [0, 0]"
  by (simp_all add: class_data_def demo_inp_def demo_target_def upt_rec)

lemma demo_select:
  "select demo_inp 0 = Inr (Tensor [2, 1] [1, 3])"
  "select demo_inp (Suc 0) = Inr (Tensor [2, 1] [2, 4])"
  "select demo_target 0 = Inr (Tensor [2, 1] [0, 0])"
  "select demo_target (Suc 0) = Inr (Tensor [2, 1] [0, 0])"
  using demo_class_data by (simp_all add: select_def demo_inp_def demo_target_def)

lemma demo_config:
  "model_num_classes demo_params = Inr 2"
  "get_scaling_factor demo_params = Inr 1"
  "loss_reduction demo_params ''mse'' = Inr ''mean''"
  "MSE_reduction (Some demo_params) = Inr ''mean''"
  by (simp_all add: model_num_classes_def get_scaling_factor_def loss_reduction_def
        MSE_reduction_def getitem_def demo_params_def)

lemma all_less_two: "(\<forall>i<(2::nat). P i) \<longleftrightarrow> P 0 \<and> P (Suc 0)"
  by (auto simp add: less_2_cases_iff)

lemma loop_branch_sum_example:
  "L1_loss demo_inp demo_target (Some demo_params) = Inr (Scalar (Fin (5/2)))
   \<and> MSE_loss demo_inp demo_target (Some demo_params) = Inr (Scalar (Fin (15/2)))"
proof -
  have sh: "shape0 demo_inp = Inr 2" "(2::nat) \<noteq> 1"
    by (simp_all add: shape0_def demo_inp_def)
  have l1: "\<forall>i<nat 2. on_class (\<lambda>x y. L1 x y ''mean'' 1) demo_inp demo_target i =
              Inr (Scalar (Fin (if i = 0 then 2 else 3)))"
    by (simp add: all_less_two on_class_def demo_select L1_def L1Loss_def broadcast_def reduce_def)
  have mse: "\<forall>i<nat 2. on_class (\<lambda>x y. MSE x y ''mean'' 1) demo_inp demo_target i =
              Inr (Scalar (Fin (if i = 0 then 5 else 10)))"
    by (simp add: all_less_two on_class_def demo_select MSE_def MSELoss_def broadcast_def reduce_def)
  note t = loop_branch_sum [OF sh demo_config(1,2), of "''mean''" demo_target
            "\<lambda>i. Scalar (Fin (if i = 0 then 2 else 3))" "\<lambda>i. if i = 0 then 2 else 3"
            "''mean''" "\<lambda>i. Scalar (Fin (if i = 0 then 5 else 10))" "\<lambda>i. if i = 0 then 5 else 10"]
  have pos: "(0::int) < 2" by simp
  have s1: "(\<Sum>i<nat 2. if i = 0 then 2 else 3) = (5::real)"
    and s2: "(\<Sum>i<nat 2. if i = 0 then 5 else 10) = (15::real)"
    by (simp_all add: eval_nat_numeral)
  have "L1_loss demo_inp demo_target (Some demo_params) =
          Inr (Scalar (Fin ((\<Sum>i<nat 2. if i = 0 then 2 else 3) / real_of_int 2)))"
    using t demo_config(3) l1 pos by blast
  moreover have "MSE_loss demo_inp demo_target (Some demo_params) =
          Inr (Scalar (Fin ((\<Sum>i<nat 2. if i = 0 then 5 else 10) / real_of_int 2)))"
    using t demo_config(4) mse pos by blast
  ultimately show ?thesis
    by (simp only: s1 s2) simp
qed

subsection \<open>L1\_loss and MSE\_loss without a configuration\<close>

lemma L1_loss_default_multi:
  assumes "shape inp = b # c # rest" and "b \<noteq> 1"
    and "\<And>i. i < c \<Longrightarrow> on_class (\<lambda>x y. L1 x y ''mean'' 1) inp target i = Inr (v i)"
  shows "L1_loss inp target None = bindE (add_all (PyNum 0) (map v [0..<c])) (\<lambda>s. truediv s (int c))"
proof -
  have "for_range (L1_loss_body_default inp target) (range0 (int c)) (PyNum 0) =
          add_all (PyNum 0) (map v (range0 (int c)))"
    by (rule for_range_add_all) (simp add: L1_loss_body_default_eq assms(3) range0_def)
  then show ?thesis
    using assms(1,2) by (simp add: L1_loss_def range0_def shape0_def shape1_def)
qed

lemma MSE_loss_default_multi:
  assumes "shape inp = b # c # rest" and "b \<noteq> 1"
    and "\<And>i. i < c \<Longrightarrow> on_class (\<lambda>x y. MSE x y ''mean'' 1) inp target i = Inr (v i)"
  shows "MSE_loss inp target None = bindE (add_all (PyNum 0) (map v [0..<c])) (\<lambda>s. truediv s (int c))"
proof -
  have "for_range (MSE_loss_body_default inp target) (range0 (int c)) (PyNum 0) =
          add_all (PyNum 0) (map v (range0 (int c)))"
    by (rule for_range_add_all) (simp add: MSE_loss_body_default_eq assms(3) range0_def)
  then show ?thesis
    using assms(1,2) by (simp add: MSE_loss_def MSE_reduction_def range0_def shape0_def shape1_def)
qed

text \<open>
  C8. When \<^verbatim>\<open>params\<close> is \<^verbatim>\<open>None\<close>, \<^verbatim>\<open>L1_loss\<close> and \<^verbatim>\<open>MSE_loss\<close> loop over the
  \<^verbatim>\<open>inp.shape[1]\<close> class channels (batch dimension other than 1), call the primitive with
  reduction \<^verbatim>\<open>"mean"\<close> and scaling factor 1, and divide the accumulated loss by
  \<^verbatim>\<open>inp.shape[1]\<close>; with a batch dimension of 1 the same defaults and the same divisor
  apply to the single call on the whole tensor.
\<close>

theorem default_params_policy:
  assumes "shape inp = b # c # rest"
  shows "(b \<noteq> 1 \<and> (\<forall>i<c. on_class (\<lambda>x y. L1 x y ''mean'' 1) inp target i = Inr (v i)) \<longrightarrow>
            L1_loss inp target None =
              bindE (add_all (PyNum 0) (map v [0..<c])) (\<lambda>s. truediv s (int c)))
       \<and> (b \<noteq> 1 \<and> (\<forall>i<c. on_class (\<lambda>x y. MSE x y ''mean'' 1) inp target i = Inr (v' i)) \<longrightarrow>
            MSE_loss inp target None =
              bindE (add_all (PyNum 0) (map v' [0..<c])) (\<lambda>s. truediv s (int c)))
       \<and> (b = 1 \<longrightarrow>
            L1_loss inp target None = bindE (L1 inp target ''mean'' 1) (\<lambda>s. truediv s (int c))
          \<and> MSE_loss inp target None = bindE (MSE inp target ''mean'' 1) (\<lambda>s. truediv s (int c)))"
proof (intro conjI impI)
  assume "b \<noteq> 1 \<and> (\<forall>i<c. on_class (\<lambda>x y. L1 x y ''mean'' 1) inp target i = Inr (v i))"
  then show "L1_loss inp target None =
      bindE (add_all (PyNum 0) (map v [0..<c])) (\<lambda>s. truediv s (int c))"
    using L1_loss_default_multi [OF assms, of target v] by blast
next
  assume "b \<noteq> 1 \<and> (\<forall>i<c. on_class (\<lambda>x y. MSE x y ''mean'' 1) inp target i = Inr (v' i))"
  then show "MSE_loss inp target None =
      bindE (add_all (PyNum 0) (map v' [0..<c])) (\<lambda>s. truediv s (int c))"
    using MSE_loss_default_multi [OF assms, of target v'] by blast
next
  assume "b = 1"
  then show "L1_loss inp target None = bindE (L1 inp target ''mean'' 1) (\<lambda>s. truediv s (int c))"
    using assms by (cases "L1 inp target ''mean'' 1") (simp_all add: L1_loss_def shape0_def shape1_def)
next
  assume "b = 1"
  then show "MSE_loss inp target None = bindE (MSE inp target ''mean'' 1) (\<lambda>s. truediv s (int c))"
    using assms
    by (cases "MSE inp target ''mean'' 1")
       (simp_all add: MSE_loss_def MSE_reduction_def shape0_def shape1_def)
qed

theorem default_params_policy_witness:
  "L1_loss demo_inp demo_target None = Inr (Scalar (Fin (5/2)))
   \<and> MSE_loss demo_inp demo_target None = Inr (Scalar (Fin (15/2)))
   \<and> L1_loss single_inp single_target None = Inr (Scalar (Fin 1))
   \<and> MSE_loss single_inp single_target None = Inr (Scalar (Fin (5/2)))"
proof -
  have sh: "shape demo_inp = 2 # 2 # [1]"
    by (simp add: demo_inp_def)
  have b: "(2::nat) \<noteq> 1" by simp
  have l1: "\<forall>i<2. on_class (\<lambda>x y. L1 x y ''mean'' 1) demo_inp demo_target i =
              Inr (Scalar (Fin (if i = 0 then 2 else 3)))"
    by (simp add: all_less_two on_class_def demo_select L1_def L1Loss_def broadcast_def reduce_def)
  have mse: "\<forall>i<2. on_class (\<lambda>x y. MSE x y ''mean'' 1) demo_inp demo_target i =
              Inr (Scalar (Fin (if i = 0 then 5 else 10)))"
    by (simp add: all_less_two on_class_def demo_select MSE_def MSELoss_def broadcast_def reduce_def)
  note t = default_params_policy [OF sh, of demo_target
            "\<lambda>i. Scalar (Fin (if i = 0 then 2 else 3))"
            "\<lambda>i. Scalar (Fin (if i = 0 then 5 else 10))"]
  have "L1_loss demo_inp demo_target None =
      bindE (add_all (PyNum 0) (map (\<lambda>i. Scalar (Fin (if i = 0 then 2 else 3))) [0..<2]))
        (\<lambda>s. truediv s (int 2))"
    using t l1 b by blast
  then have multi1: "L1_loss demo_inp demo_target None = Inr (Scalar (Fin (5/2)))"
    by (simp add: add_all_PyNum upt_rec)
  have "MSE_loss demo_inp demo_target None =
      bindE (add_all (PyNum 0) (map (\<lambda>i. Scalar (Fin (if i = 0 then 5 else 10))) [0..<2]))
        (\<lambda>s. truediv s (int 2))"
    using t mse b by blast
  then have multi2: "MSE_loss demo_inp demo_target None = Inr (Scalar (Fin (15/2)))"
    by (simp add: add_all_PyNum upt_rec)
  have sh1: "shape single_inp = 1 # 2 # [1]"
    by (simp add: single_inp_def)
  have "L1_loss single_inp single_target None =
          bindE (L1 single_inp single_target ''mean'' 1) (\<lambda>s. truediv s (int 2))
      \<and> MSE_loss single_inp single_target None =
          bindE (MSE single_inp single_target ''mean'' 1) (\<lambda>s. truediv s (int 2))"
    using default_params_policy [OF sh1, of single_target] by blast
  then have single: "L1_loss single_inp single_target None = Inr (Scalar (Fin 1))
      \<and> MSE_loss single_inp single_target None = Inr (Scalar (Fin (5/2)))"
    by (simp add: single_inp_def single_target_def L1_def L1Loss_def MSE_def MSELoss_def
          broadcast_def reduce_def)
  show ?thesis using multi1 multi2 single by blast
qed

subsection \<open>The single-sample branch\<close>

lemma L1_loss_single:
  assumes "shape0 inp = Inr 1"
    and "loss_reduction p ''l1'' = Inr r" and "get_scaling_factor p = Inr sf"
    and "model_num_classes p = Inr n"
  shows "L1_loss inp target (Some p) = bindE (L1 inp target r sf) (\<lambda>s. truediv s n)"
  using assms by (cases "L1 inp target r sf") (simp_all add: L1_loss_def)

lemma MSE_loss_single:
  assumes "shape0 inp = Inr 1"
    and "MSE_reduction (Some p) = Inr r" and "get_scaling_factor p = Inr sf"
    and "model_num_classes p = Inr n"
  shows "MSE_loss inp target (Some p) = bindE (MSE inp target r sf) (\<lambda>s. truediv s n)"
  using assms by (cases "MSE inp target r sf") (simp_all add: MSE_loss_def)

lemma L1_loss_single_default:
  assumes "shape0 inp = Inr 1" and "shape1 inp = Inr c"
  shows "L1_loss inp target None = bindE (L1 inp target ''mean'' 1) (\<lambda>s. truediv s (int c))"
  using assms by (cases "L1 inp target ''mean'' 1") (simp_all add: L1_loss_def)

lemma MSE_loss_single_default:
  assumes "shape0 inp = Inr 1" and "shape1 inp = Inr c"
  shows "MSE_loss inp target None = bindE (MSE inp target ''mean'' 1) (\<lambda>s. truediv s (int c))"
  using assms by (cases "MSE inp target ''mean'' 1") (simp_all add: MSE_loss_def MSE_reduction_def)

text \<open>
  C6. When \<^verbatim>\<open>inp.shape[0] == 1\<close>, \<^verbatim>\<open>L1_loss\<close> and \<^verbatim>\<open>MSE_loss\<close> call the primitive
  once on the whole tensors, whatever the number of class channels, and divide that value
  by the number of classes (\<^verbatim>\<open>num_classes\<close> of the configuration, or \<^verbatim>\<open>inp.shape[1]\<close>
  without one). The example after it also gives the two per-class losses of its input: a
  sum over the two classes divided by 2 would be 2, and the result is 1.
\<close>

theorem single_sample_whole_tensor:
  assumes "shape0 inp = Inr 1"
  shows "(loss_reduction p ''l1'' = Inr r \<and> get_scaling_factor p = Inr sf \<and>
          model_num_classes p = Inr n \<longrightarrow>
            L1_loss inp target (Some p) = bindE (L1 inp target r sf) (\<lambda>s. truediv s n))
       \<and> (MSE_reduction (Some p) = Inr r' \<and> get_scaling_factor p = Inr sf \<and>
          model_num_classes p = Inr n \<longrightarrow>
            MSE_loss inp target (Some p) = bindE (MSE inp target r' sf) (\<lambda>s. truediv s n))
       \<and> (shape1 inp = Inr c \<longrightarrow>
            L1_loss inp target None = bindE (L1 inp target ''mean'' 1) (\<lambda>s. truediv s (int c))
          \<and> MSE_loss inp target None = bindE (MSE inp target ''mean'' 1) (\<lambda>s. truediv s (int c)))"
  using L1_loss_single [OF assms, of p r sf n target] MSE_loss_single [OF assms, of p r' sf n target]
    L1_loss_single_default [OF assms, of c target] MSE_loss_single_default [OF assms, of c target]
  by blast

lemma l1_only_config:
  "model_num_classes l1_only_params = Inr 2"
  "get_scaling_factor l1_only_params = Inr 1"
  "loss_reduction l1_only_params ''l1'' = Inr ''mean''"
  "MSE_reduction (Some l1_only_params) = Inr ''mean''"
  "loss_reduction l1_only_params ''mse'' = Inl (KeyError (Name ''mse''))"
  by (simp_all add: model_num_classes_def get_scaling_factor_def loss_reduction_def
        MSE_reduction_def getitem_def l1_only_params_def)

lemma single_class_data:
  "class_data single_inp 0 = [1]" "class_data single_inp (Suc 0) = [3]"
  "class_data single_target 0 = [0]" "class_data single_target (Suc 0) = [0]"
  by (simp_all add: class_data_def single_inp_def single_target_def upt_rec)

lemma single_select:
  "select single_inp 0 = Inr (Tensor [1, 1] [1])"
  "select single_inp (Suc 0) = Inr (Tensor [1, 1] [3])"
  "select single_target 0 = Inr (Tensor [1, 1] [0])"
  "select single_target (Suc 0) = Inr (Tensor [1, 1] [0])"
  using single_class_data by (simp_all add: select_def single_inp_def single_target_def)

theorem single_sample_whole_tensor_witness:
  "L1_loss single_inp single_target (Some l1_only_params) = Inr (Scalar (Fin 1))
   \<and> MSE_loss single_inp single_target (Some l1_only_params) = Inr (Scalar (Fin (5/2)))
   \<and> L1_loss single_inp single_target None = Inr (Scalar (Fin 1))
   \<and> MSE_loss single_inp single_target None = Inr (Scalar (Fin (5/2)))
   \<and> on_class (\<lambda>x y. L1 x y ''mean'' 1) single_inp single_target 0 = Inr (Scalar (Fin 1))
   \<and> on_class (\<lambda>x y. L1 x y ''mean'' 1) single_inp single_target 1 = Inr (Scalar (Fin 3))"
proof -
  have sh: "shape0 single_inp = Inr 1" and sh1: "shape1 single_inp = Inr 2"
    by (simp_all add: shape0_def shape1_def single_inp_def)
  note t = single_sample_whole_tensor [OF sh, of "l1_only_params" "''mean''" 1 2 single_target
             "''mean''" 2]
  have "L1_loss single_inp single_target (Some l1_only_params) =
          bindE (L1 single_inp single_target ''mean'' 1) (\<lambda>s. truediv s 2)"
    and "MSE_loss single_inp single_target (Some l1_only_params) =
          bindE (MSE single_inp single_target ''mean'' 1) (\<lambda>s. truediv s 2)"
    and "L1_loss single_inp single_target None =
          bindE (L1 single_inp single_target ''mean'' 1) (\<lambda>s. truediv s (int 2))"
    and "MSE_loss single_inp single_target None =
          bindE (MSE single_inp single_target ''mean'' 1) (\<lambda>s. truediv s (int 2))"
    using t l1_only_config(1-4) sh1 by blast+
  moreover have "L1 single_inp single_target ''mean'' 1 = Inr (Scalar (Fin 2))"
    and "MSE single_inp single_target ''mean'' 1 = Inr (Scalar (Fin 5))"
    by (simp_all add: single_inp_def single_target_def L1_def L1Loss_def MSE_def MSELoss_def
          broadcast_def reduce_def)
  moreover have "on_class (\<lambda>x y. L1 x y ''mean'' 1) single_inp single_target 0 = Inr (Scalar (Fin 1))"
    and "on_class (\<lambda>x y. L1 x y ''mean'' 1) single_inp single_target 1 = Inr (Scalar (Fin 3))"
    by (simp_all add: on_class_def single_select L1_def L1Loss_def broadcast_def reduce_def)
  ultimately show ?thesis by simp
qed

subsection \<open>The configuration key read by L1\_loss\<close>

text \<open>
  C9. With a batch dimension other than 1 and \<^verbatim>\<open>params\<close> given, the loop of
  \<^verbatim>\<open>L1_loss\<close> reads \<^verbatim>\<open>params["loss_function"]["mse"]["reduction"]\<close>: when
  \<^verbatim>\<open>"mse"\<close> is not a key of \<^verbatim>\<open>params["loss_function"]\<close>, the first iteration raises
  \<^verbatim>\<open>KeyError('mse')\<close>, while the single-sample branch, on the same configuration, reads
  the key \<^verbatim>\<open>"l1"\<close> and returns a loss. The loop runs when \<^verbatim>\<open>num_classes\<close> is positive
  and class 0 can be sliced from both tensors.
\<close>

theorem L1_loss_reads_mse_key:
  assumes "shape0 inp = Inr b" and "b \<noteq> 1"
    and "model_num_classes p = Inr n" and "0 < n"
    and "select inp 0 = Inr x" and "select target 0 = Inr y"
    and "loss_function p = Some lf" and "lf ''mse'' = None"
  shows "L1_loss inp target (Some p) = Inl (KeyError (Name ''mse''))
       \<and> (shape0 inp' = Inr 1 \<and> loss_reduction p ''l1'' = Inr r \<and> get_scaling_factor p = Inr sf \<longrightarrow>
            L1_loss inp' target' (Some p) = bindE (L1 inp' target' r sf) (\<lambda>s. truediv s n))"
proof (intro conjI impI)
  have r0: "range0 n = 0 # [1..<nat n]"
    using assms(4) by (simp add: range0_def upt_rec)
  have "loss_reduction p ''mse'' = Inl (KeyError (Name ''mse''))"
    using assms(7,8) by (simp add: loss_reduction_def getitem_def)
  then have "L1_loss_body p inp target (PyNum 0) 0 = Inl (KeyError (Name ''mse''))"
    using assms(5,6) by (simp add: L1_loss_body_def)
  then have "for_range (L1_loss_body p inp target) (range0 n) (PyNum 0) = Inl (KeyError (Name ''mse''))"
    by (simp add: r0)
  then show "L1_loss inp target (Some p) = Inl (KeyError (Name ''mse''))"
    using assms(1-3) by (simp add: L1_loss_def)
next
  assume "shape0 inp' = Inr 1 \<and> loss_reduction p ''l1'' = Inr r \<and> get_scaling_factor p = Inr sf"
  then show "L1_loss inp' target' (Some p) = bindE (L1 inp' target' r sf) (\<lambda>s. truediv s n)"
    using L1_loss_single [of inp' p r sf n target'] assms(3) by blast
qed

theorem L1_loss_reads_mse_key_witness:
  "L1_loss demo_inp demo_target (Some l1_only_params) = Inl (KeyError (Name ''mse''))
   \<and> L1_loss single_inp single_target (Some l1_only_params) = Inr (Scalar (Fin 1))"
proof -
  have sh: "shape0 demo_inp = Inr 2" "(2::nat) \<noteq> 1"
    by (simp_all add: shape0_def demo_inp_def)
  have lf: "loss_function l1_only_params = Some [''l1'' \<mapsto> Settings [''reduction'' \<mapsto> ''mean'']]"
    "[''l1'' \<mapsto> Settings [''reduction'' \<mapsto> ''mean'']] ''mse'' = None"
    by (simp_all add: l1_only_params_def)
  have pos: "(0::int) < 2" by simp
  have sh1: "shape0 single_inp = Inr 1"
    by (simp add: shape0_def single_inp_def)
  note t = L1_loss_reads_mse_key [OF sh l1_only_config(1) pos demo_select(1) demo_select(3) lf,
             of single_inp "''mean''" 1 single_target]
  have "L1_loss demo_inp demo_target (Some l1_only_params) = Inl (KeyError (Name ''mse''))"
    using t by blast
  moreover have "L1_loss single_inp single_target (Some l1_only_params) =
      bindE (L1 single_inp single_target ''mean'' 1) (\<lambda>s. truediv s 2)"
    using t sh1 l1_only_config(2,3) by blast
  moreover have "L1 single_inp single_target ''mean'' 1 = Inr (Scalar (Fin 2))"
    by (simp add: single_inp_def single_target_def L1_def L1Loss_def broadcast_def reduce_def)
  ultimately show ?thesis by simp
qed

subsection \<open>The loop of L1\_loss on a configuration for L1 only\<close>

text \<open>
  C4. The claim: with a batch dimension other than 1 and \<^verbatim>\<open>params\<close> given, \<^verbatim>\<open>L1_loss\<close>
  and \<^verbatim>\<open>MSE_loss\<close> return the sum of the per-class losses divided once by
  \<^verbatim>\<open>num_classes\<close>. On two samples of two classes, with a configuration that defines the
  reduction of the L1 loss under the key \<^verbatim>\<open>"l1"\<close> only, \<^verbatim>\<open>MSE_loss\<close> returns that
  value, \<open>(5 + 10) / 2\<close>, and \<^verbatim>\<open>L1_loss\<close> raises \<^verbatim>\<open>KeyError('mse')\<close> in its loop and
  returns nothing, although its single-sample branch accepts the same configuration.
\<close>

theorem L1_loss_loop_fails_without_mse_key:
  "L1_loss demo_inp demo_target (Some l1_only_params) = Inl (KeyError (Name ''mse''))
   \<and> MSE_loss demo_inp demo_target (Some l1_only_params) = Inr (Scalar (Fin (15/2)))
   \<and> L1_loss single_inp single_target (Some l1_only_params) = Inr (Scalar (Fin 1))"
proof -
  have sh: "shape0 demo_inp = Inr 2" "(2::nat) \<noteq> 1"
    by (simp_all add: shape0_def demo_inp_def)
  have "L1_loss_body l1_only_params demo_inp demo_target (PyNum 0) 0 =
          Inl (KeyError (Name ''mse''))"
    by (simp add: L1_loss_body_def demo_select l1_only_config)
  then have "for_range (L1_loss_body l1_only_params demo_inp demo_target) (range0 2) (PyNum 0) =
          Inl (KeyError (Name ''mse''))"
    by (simp add: range0_def upt_rec)
  then have l1: "L1_loss demo_inp demo_target (Some l1_only_params) = Inl (KeyError (Name ''mse''))"
    using sh by (simp add: L1_loss_def l1_only_config)
  have cls: "\<And>i. i < nat 2 \<Longrightarrow>
      on_class (\<lambda>x y. MSE x y ''mean'' 1) demo_inp demo_target i =
        Inr (Scalar (Fin (if i = 0 then 5 else 10)))"
    by (auto simp add: less_2_cases_iff on_class_def demo_select MSE_def MSELoss_def
          broadcast_def reduce_def)
  have "MSE_loss demo_inp demo_target (Some l1_only_params) =
      bindE (add_all (PyNum 0) (map (\<lambda>i. Scalar (Fin (if i = 0 then 5 else 10))) [0..<nat 2]))
        (\<lambda>s. truediv s 2)"
    using sh l1_only_config(1) l1_only_config(2) l1_only_config(4) cls by (rule MSE_loss_multi)
  then have mse: "MSE_loss demo_inp demo_target (Some l1_only_params) = Inr (Scalar (Fin (15/2)))"
    by (simp add: add_all_PyNum upt_rec)
  have sh1: "shape0 single_inp = Inr 1"
    by (simp add: shape0_def single_inp_def)
  have "L1_loss single_inp single_target (Some l1_only_params) =
      bindE (L1 single_inp single_target ''mean'' 1) (\<lambda>s. truediv s 2)"
    using sh1 l1_only_config(3) l1_only_config(2) l1_only_config(1) by (rule L1_loss_single)
  then have single: "L1_loss single_inp single_target (Some l1_only_params) = Inr (Scalar (Fin 1))"
    by (simp add: single_inp_def single_target_def L1_def L1Loss_def broadcast_def reduce_def)
  show ?thesis using l1 mse single by blast
qed

subsection \<open>CCE\_Generic\<close>

lemma CCE_body_weighted:
  "weights p = Present w \<Longrightarrow> map_of w (int i) = Some wi \<Longrightarrow>
   on_class CCE_Type out t' i = Inr v \<Longrightarrow>
   CCE_body CCE_Type p out t' acc i = iadd acc (mul v wi)"
  by (auto simp add: CCE_body_def on_class_def bindE_def split: sum.splits)

lemma CCE_body_unweighted:
  "weights p = PyNone \<Longrightarrow> on_class CCE_Type out t' i = Inr v \<Longrightarrow>
   CCE_body CCE_Type p out t' acc i = iadd acc v"
  by (auto simp add: CCE_body_def on_class_def bindE_def split: sum.splits)

lemma CCE_Generic_weighted:
  assumes "weights p = Present w" and "model_class_list p = Inr cl"
    and "one_hot target cl = Inr t'"
    and "\<And>i. i < length cl \<Longrightarrow> on_class CCE_Type out t' i = Inr (v i) \<and> map_of w (int i) = Some (wt i)"
  shows "CCE_Generic one_hot CCE_Type out target p =
           add_all (PyNum 0) (map (\<lambda>i. mul (v i) (wt i)) [0..<length cl])"
proof -
  have "for_range (CCE_body CCE_Type p out t') (range0 (int (length cl))) (PyNum 0) =
          add_all (PyNum 0) (map (\<lambda>i. mul (v i) (wt i)) (range0 (int (length cl))))"
    by (rule for_range_add_all) (simp add: CCE_body_weighted [OF assms(1)] assms(4) range0_def)
  then show ?thesis
    using assms(1-3)
    by (cases "add_all (PyNum 0) (map (\<lambda>i. mul (v i) (wt i)) [0..<length cl])")
       (simp_all add: CCE_Generic_def range0_def)
qed

lemma CCE_Generic_unweighted:
  assumes "weights p = PyNone" and "model_class_list p = Inr cl"
    and "one_hot target cl = Inr t'"
    and "\<And>i. i < length cl \<Longrightarrow> on_class CCE_Type out t' i = Inr (v i)"
    and "add_all (PyNum 0) (map v [0..<length cl]) = Inr s"
  shows "CCE_Generic one_hot CCE_Type out target p = Inl (UnboundLocalError ''total_loss'')"
proof -
  have "for_range (CCE_body CCE_Type p out t') (range0 (int (length cl))) (PyNum 0) =
          add_all (PyNum 0) (map v (range0 (int (length cl))))"
    by (rule for_range_add_all) (simp add: CCE_body_unweighted [OF assms(1)] assms(4) range0_def)
  then show ?thesis
    using assms(1-3,5) by (simp add: CCE_Generic_def range0_def)
qed

lemma CCE_Generic_unweighted_no_value:
  assumes "weights p = PyNone"
  shows "CCE_Generic one_hot CCE_Type out target p \<noteq> Inr s"
  using assms by (auto simp add: CCE_Generic_def bindE_def split: sum.splits)

text \<open>
  C1. When \<^verbatim>\<open>params["weights"]\<close> is \<^verbatim>\<open>None\<close>, \<^verbatim>\<open>CCE_Generic\<close> never returns a value,
  and whenever the per-class loop completes (the class list is read, the one-hot encoding
  succeeds, every class has a loss and the losses add up), the call fails at the
  mean-reduction step with the undefined-variable error on \<^verbatim>\<open>total_loss\<close>.
\<close>

theorem CCE_Generic_weights_none_fails:
  assumes "weights p = PyNone"
  shows "(\<forall>s. CCE_Generic one_hot CCE_Type out target p \<noteq> Inr s)
       \<and> (model_class_list p = Inr cl \<and> one_hot target cl = Inr t' \<and>
          (\<forall>i<length cl. on_class CCE_Type out t' i = Inr (v i)) \<and>
          add_all (PyNum 0) (map v [0..<length cl]) = Inr s' \<longrightarrow>
            CCE_Generic one_hot CCE_Type out target p = Inl (UnboundLocalError ''total_loss''))"
  using assms CCE_Generic_unweighted_no_value [where p = p and one_hot = one_hot
      and CCE_Type = CCE_Type and out = out and target = target]
    CCE_Generic_unweighted [where p = p and cl = cl and one_hot = one_hot and target = target
      and t' = t' and CCE_Type = CCE_Type and out = out and v = v and s = s']
  by blast

lemma weighted_scalars:
  "cl \<noteq> [] \<Longrightarrow>
   add_all (PyNum 0) (map (\<lambda>i. mul (Scalar (Fin (l i))) (wt i)) [0..<length cl]) =
     Inr (Scalar (Fin (\<Sum>i<length cl. wt i * l i)))"
proof -
  assume "cl \<noteq> []"
  then have ne: "[0..<length cl] \<noteq> []" by simp
  have "add_all (PyNum 0) (map (\<lambda>i. Scalar (Fin (l i * wt i))) [0..<length cl]) =
      Inr (Scalar (Fin (\<Sum>i<length cl. l i * wt i)))"
    using ne by (simp only: add_all_PyNum sum_list_upt) simp
  then show ?thesis by (simp add: mult.commute)
qed

text \<open>
  C3. When \<^verbatim>\<open>params["weights"]\<close> is given, \<^verbatim>\<open>CCE_Generic\<close> returns the plain sum over
  the class indices of \<^verbatim>\<open>weights[i] * CCE_Type(out[:, i, ...], onehot_target[:, i, ...])\<close>;
  nothing divides it by the number of classes. It is stated for any loss values and, in
  closed form, for scalar losses; the example after it has two classes with weights 0.5
  and 2.0.
\<close>

theorem CCE_Generic_weighted_sum:
  assumes "weights p = Present w" and "model_class_list p = Inr cl"
    and "one_hot target cl = Inr t'"
  shows "((\<forall>i<length cl. on_class CCE_Type out t' i = Inr (v i) \<and> map_of w (int i) = Some (wt i)) \<longrightarrow>
            CCE_Generic one_hot CCE_Type out target p =
              add_all (PyNum 0) (map (\<lambda>i. mul (v i) (wt i)) [0..<length cl]))
       \<and> (cl \<noteq> [] \<and>
          (\<forall>i<length cl. on_class CCE_Type out t' i = Inr (Scalar (Fin (l i))) \<and>
                         map_of w (int i) = Some (wt i)) \<longrightarrow>
            CCE_Generic one_hot CCE_Type out target p =
              Inr (Scalar (Fin (\<Sum>i<length cl. wt i * l i))))"
proof (intro conjI impI)
  assume "\<forall>i<length cl. on_class CCE_Type out t' i = Inr (v i) \<and> map_of w (int i) = Some (wt i)"
  then show "CCE_Generic one_hot CCE_Type out target p =
      add_all (PyNum 0) (map (\<lambda>i. mul (v i) (wt i)) [0..<length cl])"
    using assms CCE_Generic_weighted [where p = p and w = w and cl = cl and one_hot = one_hot
        and target = target and t' = t' and CCE_Type = CCE_Type and out = out and v = v
        and wt = wt]
    by blast
next
  assume h: "cl \<noteq> [] \<and>
    (\<forall>i<length cl. on_class CCE_Type out t' i = Inr (Scalar (Fin (l i))) \<and>
                   map_of w (int i) = Some (wt i))"
  then have "CCE_Generic one_hot CCE_Type out target p =
      add_all (PyNum 0) (map (\<lambda>i. mul (Scalar (Fin (l i))) (wt i)) [0..<length cl])"
    using assms CCE_Generic_weighted [where p = p and w = w and cl = cl and one_hot = one_hot
        and target = target and t' = t' and CCE_Type = CCE_Type and out = out
        and v = "\<lambda>i. Scalar (Fin (l i))" and wt = wt]
    by blast
  then show "CCE_Generic one_hot CCE_Type out target p =
      Inr (Scalar (Fin (\<Sum>i<length cl. wt i * l i)))"
    using h weighted_scalars [of cl l wt] by simp
qed


lemma all_less_Suc_Suc: "(\<forall>i<Suc (Suc 0). P i) \<longleftrightarrow> P 0 \<and> P (Suc 0)"
  by (auto simp add: less_Suc_eq)

lemma demo_one_hot:
  "one_hot_labels demo_labels [0, 1] = Inr demo_one_hot_target"
  by (simp add: one_hot_labels_def demo_labels_def demo_one_hot_target_def upt_rec)

lemma demo_one_hot_select:
  "select demo_one_hot_target 0 = Inr (Tensor [2, 1] [1, 0])"
  "select demo_one_hot_target (Suc 0) = Inr (Tensor [2, 1] [0, 1])"
  by (simp_all add: select_def class_data_def demo_one_hot_target_def upt_rec)

lemma demo_cce_losses:
  "\<forall>i<length [0, 1 :: int]. on_class (\<lambda>x y. L1 x y ''mean'' 1) demo_inp demo_one_hot_target i =
           Inr (Scalar (Fin (if i = 0 then 3/2 else 5/2)))"
  by (simp add: all_less_Suc_Suc on_class_def demo_select demo_one_hot_select L1_def L1Loss_def
        broadcast_def reduce_def)

theorem CCE_Generic_weights_none_fails_witness:
  "CCE_Generic one_hot_labels (\<lambda>x y. L1 x y ''mean'' 1) demo_inp demo_labels l1_only_params =
     Inl (UnboundLocalError ''total_loss'')"
proof -
  have w: "weights l1_only_params = PyNone"
    and cl: "model_class_list l1_only_params = Inr [0, 1]"
    by (simp_all add: l1_only_params_def model_class_list_def getitem_def)
  have sum: "add_all (PyNum 0)
               (map (\<lambda>i. Scalar (Fin (if i = 0 then 3/2 else 5/2))) [0..<length [0, 1 :: int]]) =
               Inr (Scalar (Fin 4))"
    by (simp add: add_all_PyNum upt_rec)
  show ?thesis
    using CCE_Generic_weights_none_fails [OF w, where cl = "[0, 1]" and one_hot = one_hot_labels
        and target = demo_labels and t' = demo_one_hot_target
        and CCE_Type = "\<lambda>x y. L1 x y ''mean'' 1" and out = demo_inp
        and v = "\<lambda>i. Scalar (Fin (if i = 0 then 3/2 else 5/2))" and s' = "Scalar (Fin 4)"]
      cl demo_one_hot demo_cce_losses sum
    by blast
qed

theorem CCE_Generic_weighted_sum_witness:
  "CCE_Generic one_hot_labels (\<lambda>x y. L1 x y ''mean'' 1) demo_inp demo_labels demo_params =
     Inr (Scalar (Fin (1/2 * (3/2) + 2 * (5/2))))"
proof -
  have w: "weights demo_params = Present [(0, 1/2), (1, 2)]"
    and cl: "model_class_list demo_params = Inr [0, 1]"
    by (simp_all add: demo_params_def model_class_list_def getitem_def)
  have ne: "[0, 1 :: int] \<noteq> []" by simp
  have wts: "\<forall>i<length [0, 1 :: int].
      map_of [(0, 1/2), (1, 2 :: real)] (int i) = Some (if i = 0 then 1/2 else 2)"
    by (simp add: all_less_Suc_Suc)
  have h: "\<forall>i<length [0, 1 :: int].
             on_class (\<lambda>x y. L1 x y ''mean'' 1) demo_inp demo_one_hot_target i =
               Inr (Scalar (Fin (if i = 0 then 3/2 else 5/2)))
             \<and> map_of [(0, 1/2), (1, 2 :: real)] (int i) = Some (if i = 0 then 1/2 else 2)"
    using demo_cce_losses wts by blast
  have s: "(\<Sum>i<length [0, 1 :: int]. (if i = 0 then 1/2 else 2) * (if i = 0 then 3/2 else 5/2)) =
             (1/2 * (3/2) + 2 * (5/2) :: real)"
    by (simp add: eval_nat_numeral)
  have "CCE_Generic one_hot_labels (\<lambda>x y. L1 x y ''mean'' 1) demo_inp demo_labels demo_params =
      Inr (Scalar (Fin (\<Sum>i<length [0, 1 :: int].
             (if i = 0 then 1/2 else 2) * (if i = 0 then 3/2 else 5/2))))"
    using CCE_Generic_weighted_sum [where p = demo_params and w = "[(0, 1/2), (1, 2)]"
        and cl = "[0, 1]" and one_hot = one_hot_labels and target = demo_labels
        and t' = demo_one_hot_target
        and CCE_Type = "\<lambda>x y. L1 x y ''mean'' 1" and out = demo_inp
        and l = "\<lambda>i. if i = 0 then 3/2 else 5/2" and wt = "\<lambda>i. if i = 0 then 1/2 else 2"]
      w cl demo_one_hot h ne
    by blast
  then show ?thesis by (simp only: s)
qed

subsection \<open>MSE\_loss on the scenario\<close>

lemma length_class_data_2344:
  assumes "shape t = [2, 3, 4, 4]" and "wf_tensor t" and "i < 3"
  shows "length (class_data t i) = 32"
  using assms by (simp add: wf_tensor_def class_data_def upt_rec)

lemma select_2344:
  assumes "shape t = [2, 3, 4, 4]" and "i < 3"
  shows "select t i = Inr (Tensor [2, 4, 4] (class_data t i))"
  using assms by (simp add: select_def)

lemma MSE_mean_equal_lengths:
  assumes "length xs = length ys" and "xs \<noteq> []"
  shows "MSE (Tensor sx xs) (Tensor sy ys) ''mean'' 1 = Inr (Scalar (Fin (mean_sq xs ys)))"
proof -
  have "ys \<noteq> []" using assms by auto
  then show ?thesis
    using assms by (simp add: MSE_def MSELoss_def broadcast_def reduce_def mean_sq_def)
qed

lemma on_class_2344:
  assumes "shape inp = [2, 3, 4, 4]" and "shape target = [2, 3, 4, 4]"
    and "wf_tensor inp" and "wf_tensor target" and "i < 3"
  shows "on_class (\<lambda>x y. MSE x y ''mean'' 1) inp target i =
           Inr (Scalar (Fin (mean_sq (class_data inp i) (class_data target i))))"
proof -
  have l1: "length (class_data inp i) = 32" and l2: "length (class_data target i) = 32"
    using assms by (simp_all add: length_class_data_2344)
  then have "class_data inp i \<noteq> []" by auto
  then show ?thesis
    using l1 l2 assms(1,2,5) by (simp add: on_class_def select_2344 MSE_mean_equal_lengths)
qed

lemma MSE_loss_2344:
  assumes "shape inp = [2, 3, 4, 4]" and "shape target = [2, 3, 4, 4]"
    and "wf_tensor inp" and "wf_tensor target"
    and "model_num_classes p = Inr 3" and "MSE_reduction (Some p) = Inr ''mean''"
    and "get_scaling_factor p = Inr 1"
  shows "MSE_loss inp target (Some p) =
           Inr (Scalar (Fin ((mean_sq (class_data inp 0) (class_data target 0)
                            + mean_sq (class_data inp 1) (class_data target 1)
                            + mean_sq (class_data inp 2) (class_data target 2)) / 3)))"
proof -
  let ?m = "\<lambda>i. mean_sq (class_data inp i) (class_data target i)"
  have sh: "shape0 inp = Inr 2" "(2::nat) \<noteq> 1"
    using assms(1) by (simp_all add: shape0_def)
  have cls: "\<And>i. i < nat 3 \<Longrightarrow>
      on_class (\<lambda>x y. MSE x y ''mean'' 1) inp target i = Inr (Scalar (Fin (?m i)))"
    using on_class_2344 [OF assms(1-4)] by simp
  have "MSE_loss inp target (Some p) =
      bindE (add_all (PyNum 0) (map (\<lambda>i. Scalar (Fin (?m i))) [0..<nat 3])) (\<lambda>s. truediv s 3)"
    using sh assms(5) assms(7) assms(6) cls by (rule MSE_loss_multi)
  then show ?thesis
    by (simp add: add_all_PyNum upt_rec eval_nat_numeral)
qed


lemma scenario_config:
  "model_num_classes scenario_params = Inr 3"
  "MSE_reduction (Some scenario_params) = Inr ''mean''"
  "get_scaling_factor scenario_params = Inr 1"
  by (simp_all add: model_num_classes_def get_scaling_factor_def MSE_reduction_def getitem_def
        scenario_params_def)

lemma scenario_shapes:
  "shape scenario_inp = [2, 3, 4, 4]" "shape scenario_target = [2, 3, 4, 4]"
  "wf_tensor scenario_inp" "wf_tensor scenario_target"
  by (simp_all add: wf_tensor_def scenario_inp_def scenario_target_def)

lemma scenario_class_data:
  "i < 3 \<Longrightarrow> class_data scenario_inp i = replicate 32 1"
  "i < 3 \<Longrightarrow> class_data scenario_target i = replicate 32 0"
  by (simp_all add: class_data_def scenario_inp_def scenario_target_def upt_rec
        replicate_add [symmetric])

lemma scenario_mean_sq:
  "i < 3 \<Longrightarrow> mean_sq (class_data scenario_inp i) (class_data scenario_target i) = 1"
  by (simp add: scenario_class_data mean_sq_def zip_replicate sum_list_replicate)

text \<open>
  C5, the value returned. For \<^verbatim>\<open>inp\<close> and \<^verbatim>\<open>target\<close> of shape \<open>[2, 3, 4, 4]\<close>, with
  \<^verbatim>\<open>num_classes=3\<close>, reduction \<^verbatim>\<open>"mean"\<close> and scaling factor 1, \<^verbatim>\<open>MSE_loss\<close> returns
  the sum of the three per-class MSE values divided once by 3, that is their mean; it is
  not divided by 3 a second time.
\<close>

theorem MSE_loss_scenario:
  assumes "shape inp = [2, 3, 4, 4]" and "shape target = [2, 3, 4, 4]"
    and "wf_tensor inp" and "wf_tensor target"
    and "model_num_classes p = Inr 3" and "MSE_reduction (Some p) = Inr ''mean''"
    and "get_scaling_factor p = Inr 1"
  shows "MSE_loss inp target (Some p) =
           Inr (Scalar (Fin ((mean_sq (class_data inp 0) (class_data target 0)
                            + mean_sq (class_data inp 1) (class_data target 1)
                            + mean_sq (class_data inp 2) (class_data target 2)) / 3)))"
  using assms by (rule MSE_loss_2344)

theorem MSE_loss_scenario_witness:
  "MSE_loss scenario_inp scenario_target (Some scenario_params) = Inr (Scalar (Fin 1))"
  using MSE_loss_scenario [OF scenario_shapes scenario_config]
  by (simp add: scenario_mean_sq)

text \<open>
  C5, read as written: the mean over the three per-class MSE values, divided again by 3. On the
  input of ones and the target of zeros every per-class MSE value is 1: \<^verbatim>\<open>MSE_loss\<close>
  returns 1, and the value of the claim is 1/3.
\<close>

theorem MSE_loss_scenario_counterexample:
  "MSE_loss scenario_inp scenario_target (Some scenario_params) = Inr (Scalar (Fin 1))
   \<and> mean_of [mean_sq (class_data scenario_inp 0) (class_data scenario_target 0),
               mean_sq (class_data scenario_inp 1) (class_data scenario_target 1),
               mean_sq (class_data scenario_inp 2) (class_data scenario_target 2)] / 3 = 1 / 3
   \<and> MSE_loss scenario_inp scenario_target (Some scenario_params) \<noteq>
       Inr (Scalar (Fin (mean_of
              [mean_sq (class_data scenario_inp 0) (class_data scenario_target 0),
               mean_sq (class_data scenario_inp 1) (class_data scenario_target 1),
               mean_sq (class_data scenario_inp 2) (class_data scenario_target 2)] / 3)))"
  using MSE_loss_2344 [OF scenario_shapes scenario_config]
  by (simp add: scenario_mean_sq mean_of_def)

end
